theory Spec2Isabelle
  imports
    Main
    "HOL-Library.List_Lexorder"
    "HOL-Library.AList"
    "HOL-Library.Code_Target_Nat"
begin

section \<open>Python strings and integers, as the script uses them\<close>

text \<open>
  A Python string is a list of Unicode code points, each a natural number. A text of
  the script written in ASCII is given as \<open>lit ''...''\<close>. The tables of characters
  (decimal digits, unprintable characters) are those of Unicode 14.0.0, the version
  CPython 3.11 carries.
\<close>

type_synonym ustring = "nat list"

definition lit :: "string \<Rightarrow> ustring" where
  "lit s = map of_char s"

text \<open>
  The characters \<open>str.strip()\<close> removes, those for which \<open>str.isspace\<close> holds: the ASCII
  blanks and separators, the next-line and no-break space characters and the Unicode
  spaces.
\<close>

definition space_chars :: "nat list" where
  "space_chars =
     [0x09, 0x0A, 0x0B, 0x0C, 0x0D, 0x1C, 0x1D, 0x1E, 0x1F, 0x20, 0x85, 0xA0, 0x1680,
      0x2000, 0x2001, 0x2002, 0x2003, 0x2004, 0x2005, 0x2006, 0x2007, 0x2008, 0x2009,
      0x200A, 0x2028, 0x2029, 0x202F, 0x205F, 0x3000]"

definition is_space :: "nat \<Rightarrow> bool" where
  "is_space c \<longleftrightarrow> c \<in> set space_chars"

text \<open>\<open>s.strip()\<close>: white space removed at both ends.\<close>

definition strip :: "ustring \<Rightarrow> ustring" where
  "strip s = rev (dropWhile is_space (rev (dropWhile is_space s)))"

text \<open>
  The decimal digits of Unicode come in runs of ten, from the digit zero of a script to
  its digit nine; \<open>decimal_zeros\<close> lists the zeros. \<open>decimal c\<close> is the value of the digit
  \<open>c\<close>, as the class \<open>\d\<close> of \<open>re\<close> and \<open>int\<close> read it.
\<close>

definition decimal_zeros :: "nat list" where
  "decimal_zeros =
    [
     48, 1632, 1776, 1984, 2406, 2534, 2662, 2790, 2918, 3046, 3174, 3302, 3430, 3558,
     3664, 3792, 3872, 4160, 4240, 6112, 6160, 6470, 6608, 6784, 6800, 6992, 7088, 7232,
     7248, 42528, 43216, 43264, 43472, 43504, 43600, 44016, 65296, 66720, 68912, 69734,
     69872, 69942, 70096, 70384, 70736, 70864, 71248, 71360, 71472, 71904, 72016, 72784,
     73040, 73120, 92768, 92864, 93008, 120782, 120792, 120802, 120812, 120822, 123200,
     123632, 125264, 130032
    ]"

definition decimal :: "nat \<Rightarrow> nat option" where
  "decimal c = map_option (\<lambda>z. c - z) (List.find (\<lambda>z. z \<le> c \<and> c < z + 10) decimal_zeros)"

definition is_digit :: "nat \<Rightarrow> bool" where
  "is_digit c \<longleftrightarrow> decimal c \<noteq> None"

definition digit_val :: "nat \<Rightarrow> nat" where
  "digit_val c = (case decimal c of Some d \<Rightarrow> d | None \<Rightarrow> 0)"

text \<open>
  \<open>s.lower()\<close>, as far as the script can tell: it only compares the result with
  \<open>code\<close> and looks for \<open>code\<close> in it, and the capital letters C, O, D and E are the only
  characters that \<open>lower\<close> turns into a letter of that word (of the others, only the
  Kelvin sign and the dotted capital I become ASCII letters at all, k and i). So the
  ASCII capitals are mapped and every other character is left as it is.
\<close>

definition lower_char :: "nat \<Rightarrow> nat" where
  "lower_char c = (if 65 \<le> c \<and> c \<le> 90 then c + 32 else c)"

definition lower :: "ustring \<Rightarrow> ustring" where
  "lower s = map lower_char s"

text \<open>\<open>sub in s\<close>: \<open>sub\<close> occurs in \<open>s\<close> as a contiguous piece.\<close>

fun starts_with :: "ustring \<Rightarrow> ustring \<Rightarrow> bool" where
  "starts_with [] s = True"
| "starts_with (p # ps) [] = False"
| "starts_with (p # ps) (c # cs) = (p = c \<and> starts_with ps cs)"

fun contains :: "ustring \<Rightarrow> ustring \<Rightarrow> bool" where
  "contains sub [] = (sub = [])"
| "contains sub (c # cs) = (starts_with sub (c # cs) \<or> contains sub cs)"

text \<open>\<open>str(n)\<close> for an integer: ASCII decimal digits, a minus sign for a negative one.\<close>

definition digit_char :: "nat \<Rightarrow> nat" where
  "digit_char d = 48 + d"

fun str_nat :: "nat \<Rightarrow> ustring" where
  "str_nat n = (if n < 10 then [digit_char n] else str_nat (n div 10) @ [digit_char (n mod 10)])"

declare str_nat.simps [simp del]

definition str_int :: "int \<Rightarrow> ustring" where
  "str_int i = (if i < 0 then 45 # str_nat (nat (- i)) else str_nat (nat i))"

text \<open>
  \<open>s.zfill(w)\<close>: zeros on the left up to the width \<open>w\<close>, after a leading sign (43 is the
  plus, 45 the minus) when there is one; a string that is already \<open>w\<close> long or longer is
  returned as it is.
\<close>

definition zfill :: "nat \<Rightarrow> ustring \<Rightarrow> ustring" where
  "zfill w s =
     (if w \<le> length s then s
      else (case s of
              [] \<Rightarrow> replicate w 48
            | c # r \<Rightarrow>
                if c = 43 \<or> c = 45
                then c # replicate (w - length s) 48 @ r
                else replicate (w - length s) 48 @ s))"

text \<open>
  \<open>int(s)\<close> for a string: white space removed at both ends, an optional sign, then
  decimal digits of any script, where single underscores (95) may stand between two
  digits. The white space of \<open>int\<close> is that of \<open>strip\<close> without the four ASCII
  separators 28 to 31. \<open>None\<close> is Python's \<open>ValueError\<close>. The limit that recent Python
  versions put on the number of digits is not modelled.
\<close>

definition int_space :: "nat \<Rightarrow> bool" where
  "int_space c \<longleftrightarrow> is_space c \<and> \<not> (28 \<le> c \<and> c \<le> 31)"

definition nat_of_digits :: "ustring \<Rightarrow> nat" where
  "nat_of_digits ds = foldl (\<lambda>a c. 10 * a + digit_val c) 0 ds"

fun int_literal_ok :: "ustring \<Rightarrow> bool" where
  "int_literal_ok [] = False"
| "int_literal_ok [c] = is_digit c"
| "int_literal_ok (c # d # r) =
     (is_digit c \<and> (if d = 95 then int_literal_ok r else int_literal_ok (d # r)))"

definition unsigned_literal :: "ustring \<Rightarrow> int option" where
  "unsigned_literal ds =
     (if int_literal_ok ds
      then Some (int (nat_of_digits (filter (\<lambda>c. c \<noteq> 95) ds)))
      else None)"

definition py_int_str :: "ustring \<Rightarrow> int option" where
  "py_int_str s =
     (case rev (dropWhile int_space (rev (dropWhile int_space s))) of
        [] \<Rightarrow> None
      | c # r \<Rightarrow>
          if c = 45 then map_option uminus (unsigned_literal r)
          else if c = 43 then unsigned_literal r
          else unsigned_literal (c # r))"

text \<open>\<open>re.search(r"(\d+)", s)\<close>: the leftmost longest run of digits, empty when none.\<close>

definition first_digits :: "ustring \<Rightarrow> ustring" where
  "first_digits s = takeWhile is_digit (dropWhile (\<lambda>c. \<not> is_digit c) s)"

text \<open>
  \<open>repr(s)\<close> for a string, which the message of \<open>int\<close>'s \<open>ValueError\<close> holds: the string
  between single quotes (39), or between double quotes (34) when it holds a single
  quote and no double one; a backslash (92) before the quote and the backslash; tab,
  newline and return by their letters; every other unprintable character by its code in
  hexadecimal, with two, four or eight digits.
\<close>

definition unprintable_ranges :: "(nat \<times> nat) list" where
  "unprintable_ranges =
    [
     (127, 160), (173, 173), (888, 889), (896, 899), (907, 907), (909, 909), (930, 930),
     (1328, 1328), (1367, 1368), (1419, 1420), (1424, 1424), (1480, 1487), (1515, 1518),
     (1525, 1541), (1564, 1564), (1757, 1757), (1806, 1807), (1867, 1868), (1970, 1983),
     (2043, 2044), (2094, 2095), (2111, 2111), (2140, 2141), (2143, 2143), (2155, 2159),
     (2191, 2199), (2274, 2274), (2436, 2436), (2445, 2446), (2449, 2450), (2473, 2473),
     (2481, 2481), (2483, 2485), (2490, 2491), (2501, 2502), (2505, 2506), (2511, 2518),
     (2520, 2523), (2526, 2526), (2532, 2533), (2559, 2560), (2564, 2564), (2571, 2574),
     (2577, 2578), (2601, 2601), (2609, 2609), (2612, 2612), (2615, 2615), (2618, 2619),
     (2621, 2621), (2627, 2630), (2633, 2634), (2638, 2640), (2642, 2648), (2653, 2653),
     (2655, 2661), (2679, 2688), (2692, 2692), (2702, 2702), (2706, 2706), (2729, 2729),
     (2737, 2737), (2740, 2740), (2746, 2747), (2758, 2758), (2762, 2762), (2766, 2767),
     (2769, 2783), (2788, 2789), (2802, 2808), (2816, 2816), (2820, 2820), (2829, 2830),
     (2833, 2834), (2857, 2857), (2865, 2865), (2868, 2868), (2874, 2875), (2885, 2886),
     (2889, 2890), (2894, 2900), (2904, 2907), (2910, 2910), (2916, 2917), (2936, 2945),
     (2948, 2948), (2955, 2957), (2961, 2961), (2966, 2968), (2971, 2971), (2973, 2973),
     (2976, 2978), (2981, 2983), (2987, 2989), (3002, 3005), (3011, 3013), (3017, 3017),
     (3022, 3023), (3025, 3030), (3032, 3045), (3067, 3071), (3085, 3085), (3089, 3089),
     (3113, 3113), (3130, 3131), (3141, 3141), (3145, 3145), (3150, 3156), (3159, 3159),
     (3163, 3164), (3166, 3167), (3172, 3173), (3184, 3190), (3213, 3213), (3217, 3217),
     (3241, 3241), (3252, 3252), (3258, 3259), (3269, 3269), (3273, 3273), (3278, 3284),
     (3287, 3292), (3295, 3295), (3300, 3301), (3312, 3312), (3315, 3327), (3341, 3341),
     (3345, 3345), (3397, 3397), (3401, 3401), (3408, 3411), (3428, 3429), (3456, 3456),
     (3460, 3460), (3479, 3481), (3506, 3506), (3516, 3516), (3518, 3519), (3527, 3529),
     (3531, 3534), (3541, 3541), (3543, 3543), (3552, 3557), (3568, 3569), (3573, 3584),
     (3643, 3646), (3676, 3712), (3715, 3715), (3717, 3717), (3723, 3723), (3748, 3748),
     (3750, 3750), (3774, 3775), (3781, 3781), (3783, 3783), (3790, 3791), (3802, 3803),
     (3808, 3839), (3912, 3912), (3949, 3952), (3992, 3992), (4029, 4029), (4045, 4045),
     (4059, 4095), (4294, 4294), (4296, 4300), (4302, 4303), (4681, 4681), (4686, 4687),
     (4695, 4695), (4697, 4697), (4702, 4703), (4745, 4745), (4750, 4751), (4785, 4785),
     (4790, 4791), (4799, 4799), (4801, 4801), (4806, 4807), (4823, 4823), (4881, 4881),
     (4886, 4887), (4955, 4956), (4989, 4991), (5018, 5023), (5110, 5111), (5118, 5119),
     (5760, 5760), (5789, 5791), (5881, 5887), (5910, 5918), (5943, 5951), (5972, 5983),
     (5997, 5997), (6001, 6001), (6004, 6015), (6110, 6111), (6122, 6127), (6138, 6143),
     (6158, 6158), (6170, 6175), (6265, 6271), (6315, 6319), (6390, 6399), (6431, 6431),
     (6444, 6447), (6460, 6463), (6465, 6467), (6510, 6511), (6517, 6527), (6572, 6575),
     (6602, 6607), (6619, 6621), (6684, 6685), (6751, 6751), (6781, 6782), (6794, 6799),
     (6810, 6815), (6830, 6831), (6863, 6911), (6989, 6991), (7039, 7039), (7156, 7163),
     (7224, 7226), (7242, 7244), (7305, 7311), (7355, 7356), (7368, 7375), (7419, 7423),
     (7958, 7959), (7966, 7967), (8006, 8007), (8014, 8015), (8024, 8024), (8026, 8026),
     (8028, 8028), (8030, 8030), (8062, 8063), (8117, 8117), (8133, 8133), (8148, 8149),
     (8156, 8156), (8176, 8177), (8181, 8181), (8191, 8207), (8232, 8239), (8287, 8303),
     (8306, 8307), (8335, 8335), (8349, 8351), (8385, 8399), (8433, 8447), (8588, 8591),
     (9255, 9279), (9291, 9311), (11124, 11125), (11158, 11158), (11508, 11512),
     (11558, 11558), (11560, 11564), (11566, 11567), (11624, 11630), (11633, 11646),
     (11671, 11679), (11687, 11687), (11695, 11695), (11703, 11703), (11711, 11711),
     (11719, 11719), (11727, 11727), (11735, 11735), (11743, 11743), (11870, 11903),
     (11930, 11930), (12020, 12031), (12246, 12271), (12284, 12288), (12352, 12352),
     (12439, 12440), (12544, 12548), (12592, 12592), (12687, 12687), (12772, 12783),
     (12831, 12831), (42125, 42127), (42183, 42191), (42540, 42559), (42744, 42751),
     (42955, 42959), (42962, 42962), (42964, 42964), (42970, 42993), (43053, 43055),
     (43066, 43071), (43128, 43135), (43206, 43213), (43226, 43231), (43348, 43358),
     (43389, 43391), (43470, 43470), (43482, 43485), (43519, 43519), (43575, 43583),
     (43598, 43599), (43610, 43611), (43715, 43738), (43767, 43776), (43783, 43784),
     (43791, 43792), (43799, 43807), (43815, 43815), (43823, 43823), (43884, 43887),
     (44014, 44015), (44026, 44031), (55204, 55215), (55239, 55242), (55292, 63743),
     (64110, 64111), (64218, 64255), (64263, 64274), (64280, 64284), (64311, 64311),
     (64317, 64317), (64319, 64319), (64322, 64322), (64325, 64325), (64451, 64466),
     (64912, 64913), (64968, 64974), (64976, 65007), (65050, 65055), (65107, 65107),
     (65127, 65127), (65132, 65135), (65141, 65141), (65277, 65280), (65471, 65473),
     (65480, 65481), (65488, 65489), (65496, 65497), (65501, 65503), (65511, 65511),
     (65519, 65531), (65534, 65535), (65548, 65548), (65575, 65575), (65595, 65595),
     (65598, 65598), (65614, 65615), (65630, 65663), (65787, 65791), (65795, 65798),
     (65844, 65846), (65935, 65935), (65949, 65951), (65953, 65999), (66046, 66175),
     (66205, 66207), (66257, 66271), (66300, 66303), (66340, 66348), (66379, 66383),
     (66427, 66431), (66462, 66462), (66500, 66503), (66518, 66559), (66718, 66719),
     (66730, 66735), (66772, 66775), (66812, 66815), (66856, 66863), (66916, 66926),
     (66939, 66939), (66955, 66955), (66963, 66963), (66966, 66966), (66978, 66978),
     (66994, 66994), (67002, 67002), (67005, 67071), (67383, 67391), (67414, 67423),
     (67432, 67455), (67462, 67462), (67505, 67505), (67515, 67583), (67590, 67591),
     (67593, 67593), (67638, 67638), (67641, 67643), (67645, 67646), (67670, 67670),
     (67743, 67750), (67760, 67807), (67827, 67827), (67830, 67834), (67868, 67870),
     (67898, 67902), (67904, 67967), (68024, 68027), (68048, 68049), (68100, 68100),
     (68103, 68107), (68116, 68116), (68120, 68120), (68150, 68151), (68155, 68158),
     (68169, 68175), (68185, 68191), (68256, 68287), (68327, 68330), (68343, 68351),
     (68406, 68408), (68438, 68439), (68467, 68471), (68498, 68504), (68509, 68520),
     (68528, 68607), (68681, 68735), (68787, 68799), (68851, 68857), (68904, 68911),
     (68922, 69215), (69247, 69247), (69290, 69290), (69294, 69295), (69298, 69375),
     (69416, 69423), (69466, 69487), (69514, 69551), (69580, 69599), (69623, 69631),
     (69710, 69713), (69750, 69758), (69821, 69821), (69827, 69839), (69865, 69871),
     (69882, 69887), (69941, 69941), (69960, 69967), (70007, 70015), (70112, 70112),
     (70133, 70143), (70162, 70162), (70207, 70271), (70279, 70279), (70281, 70281),
     (70286, 70286), (70302, 70302), (70314, 70319), (70379, 70383), (70394, 70399),
     (70404, 70404), (70413, 70414), (70417, 70418), (70441, 70441), (70449, 70449),
     (70452, 70452), (70458, 70458), (70469, 70470), (70473, 70474), (70478, 70479),
     (70481, 70486), (70488, 70492), (70500, 70501), (70509, 70511), (70517, 70655),
     (70748, 70748), (70754, 70783), (70856, 70863), (70874, 71039), (71094, 71095),
     (71134, 71167), (71237, 71247), (71258, 71263), (71277, 71295), (71354, 71359),
     (71370, 71423), (71451, 71452), (71468, 71471), (71495, 71679), (71740, 71839),
     (71923, 71934), (71943, 71944), (71946, 71947), (71956, 71956), (71959, 71959),
     (71990, 71990), (71993, 71994), (72007, 72015), (72026, 72095), (72104, 72105),
     (72152, 72153), (72165, 72191), (72264, 72271), (72355, 72367), (72441, 72703),
     (72713, 72713), (72759, 72759), (72774, 72783), (72813, 72815), (72848, 72849),
     (72872, 72872), (72887, 72959), (72967, 72967), (72970, 72970), (73015, 73017),
     (73019, 73019), (73022, 73022), (73032, 73039), (73050, 73055), (73062, 73062),
     (73065, 73065), (73103, 73103), (73106, 73106), (73113, 73119), (73130, 73439),
     (73465, 73647), (73649, 73663), (73714, 73726), (74650, 74751), (74863, 74863),
     (74869, 74879), (75076, 77711), (77811, 77823), (78895, 82943), (83527, 92159),
     (92729, 92735), (92767, 92767), (92778, 92781), (92863, 92863), (92874, 92879),
     (92910, 92911), (92918, 92927), (92998, 93007), (93018, 93018), (93026, 93026),
     (93048, 93052), (93072, 93759), (93851, 93951), (94027, 94030), (94088, 94094),
     (94112, 94175), (94181, 94191), (94194, 94207), (100344, 100351), (101590, 101631),
     (101641, 110575), (110580, 110580), (110588, 110588), (110591, 110591),
     (110883, 110927), (110931, 110947), (110952, 110959), (111356, 113663),
     (113771, 113775), (113789, 113791), (113801, 113807), (113818, 113819),
     (113824, 118527), (118574, 118575), (118599, 118607), (118724, 118783),
     (119030, 119039), (119079, 119080), (119155, 119162), (119275, 119295),
     (119366, 119519), (119540, 119551), (119639, 119647), (119673, 119807),
     (119893, 119893), (119965, 119965), (119968, 119969), (119971, 119972),
     (119975, 119976), (119981, 119981), (119994, 119994), (119996, 119996),
     (120004, 120004), (120070, 120070), (120075, 120076), (120085, 120085),
     (120093, 120093), (120122, 120122), (120127, 120127), (120133, 120133),
     (120135, 120137), (120145, 120145), (120486, 120487), (120780, 120781),
     (121484, 121498), (121504, 121504), (121520, 122623), (122655, 122879),
     (122887, 122887), (122905, 122906), (122914, 122914), (122917, 122917),
     (122923, 123135), (123181, 123183), (123198, 123199), (123210, 123213),
     (123216, 123535), (123567, 123583), (123642, 123646), (123648, 124895),
     (124903, 124903), (124908, 124908), (124911, 124911), (124927, 124927),
     (125125, 125126), (125143, 125183), (125260, 125263), (125274, 125277),
     (125280, 126064), (126133, 126208), (126270, 126463), (126468, 126468),
     (126496, 126496), (126499, 126499), (126501, 126502), (126504, 126504),
     (126515, 126515), (126520, 126520), (126522, 126522), (126524, 126529),
     (126531, 126534), (126536, 126536), (126538, 126538), (126540, 126540),
     (126544, 126544), (126547, 126547), (126549, 126550), (126552, 126552),
     (126554, 126554), (126556, 126556), (126558, 126558), (126560, 126560),
     (126563, 126563), (126565, 126566), (126571, 126571), (126579, 126579),
     (126584, 126584), (126589, 126589), (126591, 126591), (126602, 126602),
     (126620, 126624), (126628, 126628), (126634, 126634), (126652, 126703),
     (126706, 126975), (127020, 127023), (127124, 127135), (127151, 127152),
     (127168, 127168), (127184, 127184), (127222, 127231), (127406, 127461),
     (127491, 127503), (127548, 127551), (127561, 127567), (127570, 127583),
     (127590, 127743), (128728, 128732), (128749, 128751), (128765, 128767),
     (128884, 128895), (128985, 128991), (129004, 129007), (129009, 129023),
     (129036, 129039), (129096, 129103), (129114, 129119), (129160, 129167),
     (129198, 129199), (129202, 129279), (129620, 129631), (129646, 129647),
     (129653, 129655), (129661, 129663), (129671, 129679), (129709, 129711),
     (129723, 129727), (129734, 129743), (129754, 129759), (129768, 129775),
     (129783, 129791), (129939, 129939), (129995, 130031), (130042, 131071),
     (173792, 173823), (177977, 177983), (178206, 178207), (183970, 183983),
     (191457, 194559), (195102, 196607), (201547, 917759), (918000, 1114111)
    ]"

definition printable :: "nat \<Rightarrow> bool" where
  "printable c \<longleftrightarrow>
     (if c < 127 then 32 \<le> c
      else list_all (\<lambda>r. \<not> (fst r \<le> c \<and> c \<le> snd r)) unprintable_ranges)"

definition hex_char :: "nat \<Rightarrow> nat" where
  "hex_char d = (if d < 10 then 48 + d else 87 + d)"

fun hex_digits :: "nat \<Rightarrow> nat \<Rightarrow> ustring" where
  "hex_digits 0 n = []"
| "hex_digits (Suc k) n = hex_digits k (n div 16) @ [hex_char (n mod 16)]"

definition repr_char :: "nat \<Rightarrow> nat \<Rightarrow> ustring" where
  "repr_char quote c =
     (if c = quote \<or> c = 92 then [92, c]
      else if c = 9 then [92, 116]
      else if c = 10 then [92, 110]
      else if c = 13 then [92, 114]
      else if printable c then [c]
      else if c < 256 then [92, 120] @ hex_digits 2 c
      else if c < 65536 then [92, 117] @ hex_digits 4 c
      else [92, 85] @ hex_digits 8 c)"

definition repr_str :: "ustring \<Rightarrow> ustring" where
  "repr_str s =
     (let quote = (if 39 \<in> set s \<and> 34 \<notin> set s then 34 else 39)
      in quote # concat (map (repr_char quote) s) @ [quote])"

section \<open>Values, records and the sheet\<close>

text \<open>
  A cell or field value is an integer, a string or \<open>None\<close>; numbers with a fraction,
  dates and truth values are outside the model. A Python dictionary is an association
  list in insertion order, where assigning to a key that is present keeps its place
  (\<open>AList.update\<close>). A Record of the worker and of the writer has strings as keys.
\<close>

datatype pyval = PInt int | PStr ustring | PNone

type_synonym py_record = "(ustring \<times> pyval) list"

definition dict_get :: "py_record \<Rightarrow> ustring \<Rightarrow> pyval \<Rightarrow> pyval" where
  "dict_get d k dflt = (case map_of d k of Some v \<Rightarrow> v | None \<Rightarrow> dflt)"

text \<open>\<open>dict(zip(keys, vals))\<close>: pairs up to the shorter list, a later duplicate key wins.\<close>

definition dict_zip :: "'k list \<Rightarrow> 'v list \<Rightarrow> ('k \<times> 'v) list" where
  "dict_zip ks vs = fold (\<lambda>(k, v) d. AList.update k v d) (zip ks vs) []"

text \<open>\<open>int(v)\<close>, \<open>str(v)\<close> and the truth of \<open>v\<close> for a value.\<close>

fun py_int :: "pyval \<Rightarrow> int option" where
  "py_int (PInt n) = Some n"
| "py_int (PStr s) = py_int_str s"
| "py_int PNone = None"

fun py_str :: "pyval \<Rightarrow> ustring" where
  "py_str (PInt n) = str_int n"
| "py_str (PStr s) = s"
| "py_str PNone = lit ''None''"

fun truthy :: "pyval \<Rightarrow> bool" where
  "truthy (PInt n) = (n \<noteq> 0)"
| "truthy (PStr s) = (s \<noteq> [])"
| "truthy PNone = False"

text \<open>
  The active sheet of the workbook the loader reads: its rows, the header row first,
  each a tuple of cell values. A sheet may have no row at all.
\<close>

type_synonym sheet = "pyval list list"

text \<open>What the writer puts into the workbook: the header row and the data rows.\<close>

type_synonym written_sheet = "ustring list \<times> pyval list list"

text \<open>What the run does beyond computing: error-log lines, waits and console lines.\<close>

datatype event = LogError ustring | Sleep | Print ustring

text \<open>The arrow of the log and console lines, between two blanks.\<close>

definition arrow :: ustring where
  "arrow = [32, 0x2192, 32]"

section \<open>Configuration\<close>

definition START_SEAT :: int where "START_SEAT = 261370"
definition END_SEAT :: int where "END_SEAT = 55602"
definition RETRIES :: nat where "RETRIES = 2"

section \<open>Loading the prior results\<close>

text \<open>
  The search for the code column: the first header \<open>h\<close> that is true and whose text,
  stripped and lower-cased, is \<open>code\<close>; \<open>idx\<close> is the position of the head of the list.
\<close>

fun find_code_col :: "nat \<Rightarrow> pyval list \<Rightarrow> nat option" where
  "find_code_col idx [] = None"
| "find_code_col idx (h # hs) =
     (if truthy h \<and> lower (strip (py_str h)) = lit ''code'' then Some idx
      else find_code_col (Suc idx) hs)"

text \<open>
  The seat a data row records: nothing for a row too short to have the code column, for
  an empty code cell and for a code that \<open>int\<close> rejects.
\<close>

definition row_seat :: "nat \<Rightarrow> pyval list \<Rightarrow> ustring option" where
  "row_seat code_col row =
     (if code_col \<ge> length row then None
      else (case row ! code_col of
              PNone \<Rightarrow> None
            | code_val \<Rightarrow>
                (case py_int code_val of
                   None \<Rightarrow> None
                 | Some n \<Rightarrow> Some (zfill 6 (str_int n)))))"

text \<open>
  One turn of the loop over the data rows, on the pair (seen codes, existing records).
  The keys of an existing record are the header cells, whatever they hold.
\<close>

type_synonym loaded_record = "(pyval \<times> pyval) list"

definition load_row ::
  "pyval list \<Rightarrow> nat \<Rightarrow> pyval list \<Rightarrow> ustring set \<times> loaded_record list
     \<Rightarrow> ustring set \<times> loaded_record list" where
  "load_row header_row code_col row st =
     (case row_seat code_col row of
        None \<Rightarrow> st
      | Some seat_str \<Rightarrow> (insert seat_str (fst st), snd st @ [dict_zip header_row row]))"

definition warning_text :: ustring where
  "warning_text =
     [0x26A0, 0xFE0F] @ lit ''  Could not find a '' @ [39] @ lit ''code'' @ [39]
     @ lit '' column in existing file'' @ [0x2014] @ lit ''resuming all seats.''"

text \<open>
  The loader: \<open>None\<close> is an output path that does not exist. It returns the seen codes,
  the existing records and what it printed; on a sheet without any row, \<open>next\<close> finds
  no header row and raises \<open>StopIteration\<close>, which nothing catches.
\<close>

datatype crash = StopIteration

definition load_existing ::
  "sheet option \<Rightarrow> crash + ustring set \<times> loaded_record list \<times> event list" where
  "load_existing file =
     (case file of
        None \<Rightarrow> Inr ({}, [], [])
      | Some [] \<Rightarrow> Inl StopIteration
      | Some (header_row # rows) \<Rightarrow>
          (case find_code_col 0 header_row of
             None \<Rightarrow> Inr ({}, [], [Print warning_text])
           | Some code_col \<Rightarrow>
               (let st = fold (load_row header_row code_col) rows ({}, [])
                in Inr (fst st, snd st,
                        [Print (lit ''Loaded '' @ str_int (int (length (snd st)))
                                @ lit '' existing records, skipping those seats.'')]))))"

section \<open>The fetch-and-parse worker\<close>

text \<open>
  What the HTML parser hands to \<open>fetch_one\<close> for the section with id \<open>student_result\<close>:
  the stripped text of its first \<open>h2\<close> when there is one; for each \<open>span\<close> in document
  order its \<open>.string\<close> (\<open>None\<close> for a span that has no single string) and its text
  \<open>get_text()\<close>, which differ for a span that holds a comment; and, for its first
  \<open>table\<close> when there is one, the stripped texts of the \<open>td\<close> cells of each \<open>tr\<close>.
\<close>

record result_section =
  sec_h2 :: "ustring option"
  sec_spans :: "(ustring option \<times> ustring) list"
  sec_table :: "ustring list list option"

text \<open>
  One attempt at the remote site: the request, the reading of the body or the parser
  raises an exception (with its message), or a page is parsed, with or without the
  result section.
\<close>

datatype response = Raises ustring | Page "result_section option"

text \<open>The filter of the span search, on the span's \<open>.string\<close>: \<open>t and "code" in t.lower()\<close>.\<close>

definition code_label :: "ustring option \<Rightarrow> bool" where
  "code_label t =
     (case t of None \<Rightarrow> False | Some s \<Rightarrow> s \<noteq> [] \<and> contains (lit ''code'') (lower s))"

text \<open>
  The code of the record: \<open>int(seat_str)\<close>, replaced by the first run of digits in the
  text of the first labelled span when that text has one.
\<close>

definition parse_code :: "int \<Rightarrow> (ustring option \<times> ustring) list \<Rightarrow> int" where
  "parse_code requested spans =
     (case List.find (\<lambda>span. code_label (fst span)) spans of
        Some span \<Rightarrow>
          (let m = first_digits (snd span)
           in if m \<noteq> [] then int (nat_of_digits m) else requested)
      | None \<Rightarrow> requested)"

text \<open>
  One turn of the loop over the table rows: only a row of exactly two cells counts; its
  key is \<open>cols[0].split("/")[0].strip()\<close>, the text before the first slash (47).
\<close>

definition subject :: "ustring \<Rightarrow> ustring" where
  "subject col = strip (takeWhile (\<lambda>c. c \<noteq> 47) col)"

definition row_update :: "ustring list \<Rightarrow> py_record \<Rightarrow> py_record" where
  "row_update cols data =
     (if length cols = 2 then AList.update (subject (cols ! 0)) (PStr (cols ! 1)) data
      else data)"

definition value_error :: "ustring \<Rightarrow> ustring" where
  "value_error s = lit ''invalid literal for int() with base 10: '' @ repr_str s"

text \<open>
  The body of the \<open>try\<close> once the page is parsed: \<open>Inl\<close> is the message of an exception
  (\<open>int(seat_str)\<close> on a string that is no integer), \<open>Inr None\<close> the return of \<open>None\<close>,
  \<open>Inr (Some data)\<close> the return of a record.
\<close>

definition parse_page :: "ustring \<Rightarrow> result_section option \<Rightarrow> ustring + py_record option" where
  "parse_page seat_str page =
     (case page of
        None \<Rightarrow> Inr None
      | Some sec \<Rightarrow>
          (let name = (case sec_h2 sec of Some t \<Rightarrow> t | None \<Rightarrow> [])
           in (case py_int_str seat_str of
                 None \<Rightarrow> Inl (value_error seat_str)
               | Some requested \<Rightarrow>
                   (let code = parse_code requested (sec_spans sec)
                    in (case sec_table sec of
                          None \<Rightarrow> Inr None
                        | Some rows \<Rightarrow>
                            Inr (Some (fold row_update rows
                                         [(lit ''name'', PStr name),
                                          (lit ''code'', PInt code)])))))))"

definition attempt :: "ustring \<Rightarrow> response \<Rightarrow> ustring + py_record option" where
  "attempt seat_str r = (case r of Raises e \<Rightarrow> Inl e | Page p \<Rightarrow> parse_page seat_str p)"

text \<open>
  The retry loop \<open>for _ in range(RETRIES)\<close>, from attempt number \<open>i\<close> with \<open>n\<close> attempts
  left; \<open>resp i\<close> is what attempt \<open>i\<close> meets. It returns the worker's result and its trace.
  The semaphore and the timeout decide when an attempt runs and when it gives up, not
  what the loop does with its outcome; they are not part of the model.
\<close>

fun attempts ::
  "(nat \<Rightarrow> response) \<Rightarrow> ustring \<Rightarrow> nat \<Rightarrow> nat \<Rightarrow> py_record option \<times> event list" where
  "attempts resp seat_str i 0 =
     (None, [LogError (seat_str @ arrow @ lit ''failed after retries'')])"
| "attempts resp seat_str i (Suc n) =
     (case attempt seat_str (resp i) of
        Inr result \<Rightarrow> (result, [])
      | Inl e \<Rightarrow>
          (let rest = attempts resp seat_str (Suc i) n
           in (fst rest, LogError (seat_str @ arrow @ e) # Sleep # snd rest)))"

text \<open>The remote site: for each seat string, what each attempt meets.\<close>

type_synonym remote = "ustring \<Rightarrow> nat \<Rightarrow> response"

definition fetch_one :: "nat \<Rightarrow> remote \<Rightarrow> ustring \<Rightarrow> py_record option \<times> event list" where
  "fetch_one retries site seat_str = attempts (site seat_str) seat_str 0 retries"

section \<open>The run over the seat range\<close>

text \<open>The seats to fetch: \<open>range(start, end + 1)\<close>, formatted, without the seen codes.\<close>

definition seats :: "int \<Rightarrow> int \<Rightarrow> ustring set \<Rightarrow> ustring list" where
  "seats start_seat end_seat seen_codes =
     filter (\<lambda>s. s \<notin> seen_codes) (map (\<lambda>s. zfill 6 (str_int s)) [start_seat..end_seat])"

text \<open>
  What the loop over the completed tasks does with one result: a record (a dictionary
  that is not empty) is announced and appended.
\<close>

definition collect :: "py_record option \<Rightarrow> py_record list \<times> event list" where
  "collect item =
     (case item of
        None \<Rightarrow> ([], [])
      | Some d \<Rightarrow>
          if d = [] then ([], [])
          else ([d], [Print (lit ''[OK]   '' @ zfill 6 (py_str (dict_get d (lit ''code'') PNone))
                             @ arrow @ py_str (dict_get d (lit ''name'') PNone))]))"

text \<open>
  The run: one task per seat; \<open>completed\<close> is the order in which \<open>as_completed\<close> hands
  the tasks back. It returns the records in that order and, for each task, the trace of
  the task followed by its announcement. The tasks run interleaved: the traces of two
  tasks say nothing of the order between their events.
\<close>

definition run_tasks ::
  "nat \<Rightarrow> remote \<Rightarrow> ustring list \<Rightarrow> py_record list \<times> event list list" where
  "run_tasks retries site order =
     (let outs = map (\<lambda>seat. (let r = fetch_one retries site seat; c = collect (fst r)
                               in (fst c, snd r @ snd c))) order
      in (concat (map fst outs), map snd outs))"

definition run ::
  "int \<Rightarrow> int \<Rightarrow> nat \<Rightarrow> remote \<Rightarrow> (ustring list \<Rightarrow> ustring list) \<Rightarrow> ustring set
     \<Rightarrow> py_record list \<times> event list list" where
  "run start_seat end_seat retries site completed seen_codes =
     run_tasks retries site (completed (seats start_seat end_seat seen_codes))"

section \<open>Combining and writing\<close>

text \<open>
  The headers: \<open>name\<close>, \<open>code\<close>, then the other keys of all the records, each once, in
  the order of \<open>sorted\<close>, the lexicographic order of the code points.
\<close>

definition headers :: "py_record list \<Rightarrow> ustring list" where
  "headers all_records =
     [lit ''name'', lit ''code'']
     @ sort (remdups (filter (\<lambda>h. h \<notin> set [lit ''name'', lit ''code''])
                        (concat (map (map fst) all_records))))"

definition write_rows :: "py_record list \<Rightarrow> written_sheet" where
  "write_rows all_records =
     (headers all_records,
      map (\<lambda>rec. map (\<lambda>h. dict_get rec h (PStr [])) (headers all_records)) all_records)"

text \<open>
  The end of the script: what the output file holds after it (\<open>old\<close> when nothing is
  written) and what is printed. The hint at the error log is printed when that file
  exists, which it does once logging is set up with it.
\<close>

definition combine_and_write ::
  "written_sheet option \<Rightarrow> py_record list \<Rightarrow> py_record list
     \<Rightarrow> written_sheet option \<times> event list" where
  "combine_and_write old existing results =
     (let all_records = existing @ results
      in if all_records = [] then (old, [Print (lit ''No new records fetched.'')])
         else (Some (write_rows all_records),
               [Print ([10] @ lit ''Wrote '' @ str_int (int (length all_records))
                       @ lit '' total records to grades.xlsx''),
                Print (lit ''Check errors.txt for any failures.'')]))"

section \<open>Facts about decimal strings\<close>

lemma decimal_ascii: "d < 10 \<Longrightarrow> decimal (48 + d) = Some d"
  by (simp add: decimal_def decimal_zeros_def)

lemma digit_val_digit_char: "d < 10 \<Longrightarrow> digit_val (digit_char d) = d"
  by (simp add: digit_val_def digit_char_def decimal_ascii)

lemma is_digit_digit_char: "d < 10 \<Longrightarrow> is_digit (digit_char d)"
  by (simp add: is_digit_def digit_char_def decimal_ascii)

lemma spaces_no_digits: "\<forall>c\<in>set space_chars. \<not> is_digit c"
  by code_simp

lemma is_digit_not_space: "is_digit c \<Longrightarrow> \<not> is_space c"
  using spaces_no_digits by (auto simp: is_space_def)

lemma is_digit_not_int_space: "is_digit c \<Longrightarrow> \<not> int_space c"
  by (simp add: int_space_def is_digit_not_space)

lemma special_no_digits: "\<not> is_digit 95 \<and> \<not> is_digit 45 \<and> \<not> is_digit 43"
  by code_simp

lemma is_digit_not_special: "is_digit c \<Longrightarrow> c \<noteq> 95 \<and> c \<noteq> 45 \<and> c \<noteq> 43"
  using special_no_digits by auto

lemma nat_of_digits_snoc: "nat_of_digits (ds @ [c]) = 10 * nat_of_digits ds + digit_val c"
  by (simp add: nat_of_digits_def)

lemma nat_of_digits_str_nat: "nat_of_digits (str_nat n) = n"
proof (induction n rule: str_nat.induct)
  case (1 n)
  show ?case
  proof (cases "n < 10")
    case True
    then show ?thesis
      by (subst str_nat.simps) (simp add: nat_of_digits_def digit_val_digit_char)
  next
    case False
    with "1" have "nat_of_digits (str_nat (n div 10)) = n div 10" by simp
    with False show ?thesis
      by (subst str_nat.simps) (simp add: nat_of_digits_snoc digit_val_digit_char)
  qed
qed

lemma str_nat_nonempty: "str_nat n \<noteq> []"
  by (subst str_nat.simps) simp

lemma str_nat_digits: "c \<in> set (str_nat n) \<Longrightarrow> is_digit c"
proof (induction n rule: str_nat.induct)
  case (1 n)
  show ?case
  proof (cases "n < 10")
    case True
    with "1.prems" show ?thesis
      by (subst (asm) str_nat.simps) (simp add: is_digit_digit_char)
  next
    case False
    with "1.prems" have "c \<in> set (str_nat (n div 10)) \<or> c = digit_char (n mod 10)"
      by (subst (asm) str_nat.simps) auto
    with False "1.IH" show ?thesis
      by (auto simp: is_digit_digit_char)
  qed
qed

lemma length_str_nat: "n < 10 ^ Suc k \<Longrightarrow> length (str_nat n) \<le> Suc k"
proof (induction k arbitrary: n)
  case 0
  then show ?case by (subst str_nat.simps) simp
next
  case (Suc k)
  show ?case
  proof (cases "n < 10")
    case True
    then show ?thesis by (subst str_nat.simps) simp
  next
    case False
    from Suc.prems have "n div 10 < 10 ^ Suc k" by simp
    then have "length (str_nat (n div 10)) \<le> Suc k" by (rule Suc.IH)
    with False show ?thesis by (subst str_nat.simps) simp
  qed
qed

lemma digit_val_zero: "digit_val 48 = 0"
  using digit_val_digit_char [of 0] by (simp add: digit_char_def)

lemma nat_of_digits_zeros: "nat_of_digits (replicate j 48 @ ds) = nat_of_digits ds"
proof -
  have "foldl (\<lambda>a c. 10 * a + digit_val c) 0 (replicate j 48) = 0"
    by (induction j) (simp_all add: digit_val_zero)
  then show ?thesis by (simp add: nat_of_digits_def)
qed

lemma int_literal_ok_digits: "ds \<noteq> [] \<Longrightarrow> \<forall>c\<in>set ds. is_digit c \<Longrightarrow> int_literal_ok ds"
  by (induction ds rule: int_literal_ok.induct) (auto dest: is_digit_not_special)

lemma filter_underscore_digits: "\<forall>c\<in>set ds. is_digit c \<Longrightarrow> filter (\<lambda>c. c \<noteq> 95) ds = ds"
  by (induction ds) (auto dest: is_digit_not_special)

lemma unsigned_literal_digits:
  "ds \<noteq> [] \<Longrightarrow> \<forall>c\<in>set ds. is_digit c \<Longrightarrow> unsigned_literal ds = Some (int (nat_of_digits ds))"
  by (simp add: unsigned_literal_def int_literal_ok_digits filter_underscore_digits)

lemma dropWhile_none: "\<forall>c\<in>set xs. \<not> P c \<Longrightarrow> dropWhile P xs = xs"
  by (cases xs) simp_all

lemma length_zfill: "length (zfill w s) = max w (length s)"
  by (cases s) (auto simp: zfill_def)

lemma str_nat_Cons: "\<exists>c r. str_nat n = c # r \<and> is_digit c"
proof -
  obtain c r where cr: "str_nat n = c # r"
    using str_nat_nonempty [of n] by (cases "str_nat n") auto
  then have "c \<in> set (str_nat n)" by simp
  then have "is_digit c" by (rule str_nat_digits)
  with cr show ?thesis by blast
qed

lemma zfill_str_int_nonneg:
  assumes "0 \<le> k"
  shows "\<exists>j. zfill 6 (str_int k) = replicate j 48 @ str_nat (nat k)"
proof -
  obtain c r where cr: "str_nat (nat k) = c # r" "is_digit c"
    using str_nat_Cons by blast
  from cr(2) have ns: "c \<noteq> 45 \<and> c \<noteq> 43"
    by (simp add: is_digit_not_special)
  show ?thesis
  proof (cases "6 \<le> length (str_nat (nat k))")
    case True
    with assms have "zfill 6 (str_int k) = replicate 0 48 @ str_nat (nat k)"
      by (simp add: zfill_def str_int_def)
    then show ?thesis by blast
  next
    case False
    with assms cr ns have "zfill 6 (str_int k)
        = replicate (6 - length (str_nat (nat k))) 48 @ str_nat (nat k)"
      by (simp add: zfill_def str_int_def)
    then show ?thesis by blast
  qed
qed

lemma zfill_str_int_neg:
  assumes "k < 0"
  shows "\<exists>j. zfill 6 (str_int k) = 45 # replicate j 48 @ str_nat (nat (- k))"
proof (cases "6 \<le> length (str_int k)")
  case True
  with assms have "zfill 6 (str_int k) = 45 # replicate 0 48 @ str_nat (nat (- k))"
    by (simp add: zfill_def str_int_def)
  then show ?thesis by blast
next
  case False
  with assms have "zfill 6 (str_int k)
      = 45 # replicate (6 - length (str_int k)) 48 @ str_nat (nat (- k))"
    by (simp add: zfill_def str_int_def)
  then show ?thesis by blast
qed

lemma zeros_digits: "c \<in> set (replicate j 48 @ str_nat n) \<Longrightarrow> is_digit c"
proof -
  have z: "is_digit 48"
    using is_digit_digit_char [of 0] by (simp add: digit_char_def)
  assume "c \<in> set (replicate j 48 @ str_nat n)"
  then have "c = 48 \<or> c \<in> set (str_nat n)" by auto
  with z show ?thesis by (auto dest: str_nat_digits)
qed

lemma py_int_str_digits:
  assumes "ds \<noteq> []" and "\<forall>c\<in>set ds. is_digit c"
  shows "py_int_str ds = Some (int (nat_of_digits ds))"
proof -
  from assms(2) have ns: "\<forall>c\<in>set ds. \<not> int_space c"
    by (simp add: is_digit_not_int_space)
  then have "rev (dropWhile int_space (rev (dropWhile int_space ds))) = ds"
    by (simp add: dropWhile_none)
  moreover obtain c r where cr: "ds = c # r" using assms(1) by (cases ds) auto
  moreover from cr assms(2) have "c \<noteq> 45 \<and> c \<noteq> 43"
    by (simp add: is_digit_not_special)
  ultimately show ?thesis
    using unsigned_literal_digits [OF assms] by (simp add: py_int_str_def)
qed

lemma py_int_str_minus_digits:
  assumes "ds \<noteq> []" and "\<forall>c\<in>set ds. is_digit c"
  shows "py_int_str (45 # ds) = Some (- int (nat_of_digits ds))"
proof -
  have "\<not> int_space 45" by code_simp
  with assms(2) have "\<forall>c\<in>set (45 # ds). \<not> int_space c"
    by (simp add: is_digit_not_int_space)
  then have "rev (dropWhile int_space (rev (dropWhile int_space (45 # ds)))) = 45 # ds"
    by (simp only: dropWhile_none set_rev rev_rev_ident)
  then show ?thesis
    using unsigned_literal_digits [OF assms] by (simp add: py_int_str_def)
qed

lemma py_int_str_seat: "py_int_str (zfill 6 (str_int k)) = Some k"
proof (cases "0 \<le> k")
  case True
  then obtain j where j: "zfill 6 (str_int k) = replicate j 48 @ str_nat (nat k)"
    using zfill_str_int_nonneg by blast
  have "py_int_str (replicate j 48 @ str_nat (nat k))
      = Some (int (nat_of_digits (replicate j 48 @ str_nat (nat k))))"
    by (rule py_int_str_digits) (auto simp: str_nat_nonempty zeros_digits)
  with True j show ?thesis
    by (simp add: nat_of_digits_zeros nat_of_digits_str_nat)
next
  case False
  then have neg: "k < 0" by simp
  then obtain j where j: "zfill 6 (str_int k)
      = 45 # replicate j 48 @ str_nat (nat (- k))"
    using zfill_str_int_neg by blast
  have "py_int_str (45 # replicate j 48 @ str_nat (nat (- k)))
      = Some (- int (nat_of_digits (replicate j 48 @ str_nat (nat (- k)))))"
    by (rule py_int_str_minus_digits) (auto simp: str_nat_nonempty zeros_digits)
  with neg j show ?thesis
    by (simp add: nat_of_digits_zeros nat_of_digits_str_nat)
qed

lemma length_seat: "0 \<le> k \<Longrightarrow> k \<le> 999999 \<Longrightarrow> length (zfill 6 (str_int k)) = 6"
proof -
  assume a: "0 \<le> k" "k \<le> 999999"
  then have "nat k < 10 ^ Suc 5" by simp
  then have "length (str_nat (nat k)) \<le> Suc 5" by (rule length_str_nat)
  with a show ?thesis by (simp add: length_zfill str_int_def)
qed

section \<open>The seat range\<close>

text \<open>
  For bounds in ascending order the seats are the numbers from the start to the end,
  each written in decimal and filled with zeros to six characters, which \<open>int\<close> reads
  back; they are exactly six characters long when the bounds lie between 0 and 999999.
  The seen codes only remove seats.
\<close>

lemma seats_unfiltered: "seats a b {} = map (\<lambda>s. zfill 6 (str_int s)) [a..b]"
  by (simp add: seats_def)

lemma seats_reversed_bounds: "end_seat < start_seat \<Longrightarrow> seats start_seat end_seat seen_codes = []"
  by (simp add: seats_def)

lemma seats_ascending_range:
  "length (seats start_seat end_seat {}) = nat (end_seat - start_seat + 1)
   \<and> (\<forall>i < nat (end_seat - start_seat + 1).
         seats start_seat end_seat {} ! i = zfill 6 (str_int (start_seat + int i))
         \<and> py_int_str (seats start_seat end_seat {} ! i) = Some (start_seat + int i))
   \<and> (0 \<le> start_seat \<and> end_seat \<le> 999999
        \<longrightarrow> (\<forall>s \<in> set (seats start_seat end_seat {}). length s = 6))
   \<and> seats start_seat end_seat seen_codes
       = filter (\<lambda>s. s \<notin> seen_codes) (seats start_seat end_seat {})"
proof (intro conjI allI impI ballI)
  show "length (seats start_seat end_seat {}) = nat (end_seat - start_seat + 1)"
    by (simp add: seats_unfiltered)
next
  fix i assume "i < nat (end_seat - start_seat + 1)"
  then have "start_seat + int i \<le> end_seat" by simp
  then show e: "seats start_seat end_seat {} ! i = zfill 6 (str_int (start_seat + int i))"
    using \<open>i < nat (end_seat - start_seat + 1)\<close> by (simp add: seats_unfiltered)
  show "py_int_str (seats start_seat end_seat {} ! i) = Some (start_seat + int i)"
    by (simp only: e py_int_str_seat)
next
  fix s assume "0 \<le> start_seat \<and> end_seat \<le> 999999" "s \<in> set (seats start_seat end_seat {})"
  then show "length s = 6"
    by (auto simp: seats_unfiltered length_seat)
next
  show "seats start_seat end_seat seen_codes
       = filter (\<lambda>s. s \<notin> seen_codes) (seats start_seat end_seat {})"
    by (simp add: seats_def)
qed

text \<open>
  Claim C1. The claim asks, for the bounds of the configuration, 261370 where to resume
  and 55602 where to end, for the 205769 seats between them. The range the script
  builds from them, \<open>range(261370, 55603)\<close>, is empty: no seat is scheduled.
\<close>

theorem C1_configured_range_schedules_nothing:
  "seats START_SEAT END_SEAT {} = []
   \<and> nat (\<bar>END_SEAT - START_SEAT\<bar> + 1) = 205769
   \<and> length (seats START_SEAT END_SEAT {}) \<noteq> nat (\<bar>END_SEAT - START_SEAT\<bar> + 1)"
  by (simp add: seats_def START_SEAT_def END_SEAT_def)

section \<open>The prior-result loader\<close>

lemma find_code_col_None:
  "find_code_col idx hs = None
     \<longleftrightarrow> (\<forall>h\<in>set hs. \<not> (truthy h \<and> lower (strip (py_str h)) = lit ''code''))"
  by (induction hs arbitrary: idx) auto

lemma fold_load_row:
  "fold (load_row hdr col) rows st =
     (fst st \<union> {s. \<exists>row\<in>set rows. row_seat col row = Some s},
      snd st @ map (dict_zip hdr) (filter (\<lambda>row. row_seat col row \<noteq> None) rows))"
proof (induction rows arbitrary: st)
  case Nil
  then show ?case by simp
next
  case (Cons row rows)
  show ?case
  proof (cases "row_seat col row")
    case None
    then have "load_row hdr col row st = st"
      by (simp add: load_row_def)
    with None show ?thesis by (simp add: Cons.IH)
  next
    case (Some s)
    then have "load_row hdr col row st = (insert s (fst st), snd st @ [dict_zip hdr row])"
      by (simp add: load_row_def)
    with Some show ?thesis by (auto simp: Cons.IH)
  qed
qed

lemma load_existing_found:
  assumes "find_code_col 0 header_row = Some code_col"
  shows "load_existing (Some (header_row # rows)) =
     Inr ({s. \<exists>row\<in>set rows. row_seat code_col row = Some s},
          map (dict_zip header_row) (filter (\<lambda>row. row_seat code_col row \<noteq> None) rows),
          [Print (lit ''Loaded ''
                  @ str_int (int (length (filter (\<lambda>row. row_seat code_col row \<noteq> None) rows)))
                  @ lit '' existing records, skipping those seats.'')])"
  using assms by (simp add: load_existing_def fold_load_row Let_def)

lemma row_seat_cases:
  "row_seat code_col row =
     (if length row \<le> code_col then None
      else map_option (\<lambda>n. zfill 6 (str_int n)) (py_int (row ! code_col)))"
  by (cases "row ! code_col") (auto simp: row_seat_def split: option.splits)

text \<open>
  Claim C7. When the code column is found at position \<open>code_col\<close>, the seen codes are
  exactly the seats of the data rows that record one, and the existing records are
  exactly those rows, in order, each zipped against the header row; the loader prints
  their number. A row records no seat, and so is dropped from both, when it is too short
  to reach the code column or when \<open>int\<close> rejects its code cell; otherwise its seat is
  the code written in decimal and filled with zeros to six characters, exactly six for a
  code between 0 and 999999.
\<close>

theorem C7_prior_rows:
  assumes "find_code_col 0 header_row = Some code_col"
  shows "load_existing (Some (header_row # rows)) =
           Inr ({s. \<exists>row\<in>set rows. row_seat code_col row = Some s},
                map (dict_zip header_row)
                  (filter (\<lambda>row. row_seat code_col row \<noteq> None) rows),
                [Print (lit ''Loaded ''
                  @ str_int (int (length (filter (\<lambda>row. row_seat code_col row \<noteq> None) rows)))
                  @ lit '' existing records, skipping those seats.'')])
       \<and> (\<forall>row. length row \<le> code_col \<longrightarrow> row_seat code_col row = None)
       \<and> (\<forall>row. code_col < length row \<and> py_int (row ! code_col) = None
             \<longrightarrow> row_seat code_col row = None)
       \<and> (\<forall>row n. code_col < length row \<and> py_int (row ! code_col) = Some n
             \<longrightarrow> row_seat code_col row = Some (zfill 6 (str_int n))
                 \<and> length (zfill 6 (str_int n)) \<ge> 6
                 \<and> (0 \<le> n \<and> n \<le> 999999 \<longrightarrow> length (zfill 6 (str_int n)) = 6))"
proof -
  have six: "\<And>n. 0 \<le> n \<and> n \<le> 999999 \<longrightarrow> length (zfill 6 (str_int n)) = 6"
    by (simp add: length_seat)
  have least: "\<And>n. length (zfill 6 (str_int n)) \<ge> 6"
    by (simp add: length_zfill)
  show ?thesis
    using load_existing_found [OF assms, of rows] six least
    by (simp add: row_seat_cases)
qed

text \<open>
  A sheet whose code header is \<open>Code\<close> between a no-break space and a blank, after an
  empty header cell: a good row, a short row, a row with a code that is no number, an
  empty code cell, and a code given as text, the Arabic-Indic digit one and the digit 7
  between a no-break space and a blank.
\<close>

theorem C7_prior_rows_witness:
  "find_code_col 0 [PNone, PStr ([160] @ lit ''Code ''), PStr (lit ''name'')] = Some 1
   \<and> load_existing (Some ([PNone, PStr ([160] @ lit ''Code ''), PStr (lit ''name'')] #
        [[PInt 1, PInt 5, PStr (lit ''A'')], [PInt 2], [PInt 3, PStr (lit ''x1''), PStr (lit ''C'')],
         [PInt 4, PNone, PStr (lit ''D'')], [PInt 5, PStr ([160, 0x661, 0x37, 32]), PStr (lit ''E'')]]))
     = Inr ({lit ''000005'', lit ''000017''},
        [[(PNone, PInt 1), (PStr ([160] @ lit ''Code ''), PInt 5), (PStr (lit ''name''), PStr (lit ''A''))],
         [(PNone, PInt 5), (PStr ([160] @ lit ''Code ''), PStr ([160, 0x661, 0x37, 32])),
          (PStr (lit ''name''), PStr (lit ''E''))]],
        [Print (lit ''Loaded 2 existing records, skipping those seats.'')])
   \<and> row_seat 1 [PInt 2] = None
   \<and> row_seat 1 [PInt 3, PStr (lit ''x1''), PStr (lit ''C'')] = None
   \<and> row_seat 1 [PInt 5, PStr ([160, 0x661, 0x37, 32]), PStr (lit ''E'')] = Some (lit ''000017'')"
proof -
  have c: "find_code_col 0 [PNone, PStr ([160] @ lit ''Code ''), PStr (lit ''name'')] = Some 1"
    by code_simp
  have l: "load_existing (Some ([PNone, PStr ([160] @ lit ''Code ''), PStr (lit ''name'')] #
        [[PInt 1, PInt 5, PStr (lit ''A'')], [PInt 2], [PInt 3, PStr (lit ''x1''), PStr (lit ''C'')],
         [PInt 4, PNone, PStr (lit ''D'')], [PInt 5, PStr ([160, 0x661, 0x37, 32]), PStr (lit ''E'')]]))
     = Inr ({lit ''000005'', lit ''000017''},
        [[(PNone, PInt 1), (PStr ([160] @ lit ''Code ''), PInt 5), (PStr (lit ''name''), PStr (lit ''A''))],
         [(PNone, PInt 5), (PStr ([160] @ lit ''Code ''), PStr ([160, 0x661, 0x37, 32])),
          (PStr (lit ''name''), PStr (lit ''E''))]],
        [Print (lit ''Loaded 2 existing records, skipping those seats.'')])"
    by code_simp
  have r1: "row_seat 1 [PInt 2] = None" by code_simp
  have r2: "row_seat 1 [PInt 3, PStr (lit ''x1''), PStr (lit ''C'')] = None" by code_simp
  have r3: "row_seat 1 [PInt 5, PStr ([160, 0x661, 0x37, 32]), PStr (lit ''E'')] = Some (lit ''000017'')"
    by code_simp
  show ?thesis
    using C7_prior_rows [OF c] c l r1 r2 r3 by simp
qed

text \<open>
  A sheet with a header row of which no cell is true with a text that, stripped and
  lower-cased, is \<open>code\<close>: the loader prints the warning and returns no seen code and no
  existing record.
\<close>

lemma no_code_column_warning:
  assumes "\<forall>h\<in>set header_row. \<not> (truthy h \<and> lower (strip (py_str h)) = lit ''code'')"
  shows "load_existing (Some (header_row # rows)) = Inr ({}, [], [Print warning_text])"
proof -
  from assms have "find_code_col 0 header_row = None"
    by (simp add: find_code_col_None)
  then show ?thesis by (simp add: load_existing_def)
qed

text \<open>
  Claim C8. An existing file whose sheet has no row has no column with the header
  \<open>code\<close>; the claim asks for the warning and an empty result. The loader asks the sheet
  for its first row before it looks for the column, and \<open>next\<close> raises \<open>StopIteration\<close>:
  the script ends there, without the warning.
\<close>

theorem C8_sheet_without_rows:
  "load_existing (Some []) = Inl StopIteration"
  by (simp add: load_existing_def)

section \<open>The worker's retries\<close>

lemma attempts_all_fail:
  "\<forall>j<n. attempt seat (resp (i + j)) = Inl (e (i + j)) \<Longrightarrow>
   attempts resp seat i n =
     (None, concat (map (\<lambda>j. [LogError (seat @ arrow @ e j), Sleep]) [i..<i + n])
            @ [LogError (seat @ arrow @ lit ''failed after retries'')])"
proof (induction n arbitrary: i)
  case 0
  then show ?case by simp
next
  case (Suc n)
  from Suc.prems have here: "attempt seat (resp i) = Inl (e i)"
    by (metis add.right_neutral zero_less_Suc)
  have "\<forall>j<n. attempt seat (resp (Suc i + j)) = Inl (e (Suc i + j))"
  proof (intro allI impI)
    fix j assume "j < n"
    then have "Suc j < Suc n" by simp
    with Suc.prems have "attempt seat (resp (i + Suc j)) = Inl (e (i + Suc j))" by blast
    then show "attempt seat (resp (Suc i + j)) = Inl (e (Suc i + j))" by simp
  qed
  then have rest: "attempts resp seat (Suc i) n =
     (None, concat (map (\<lambda>j. [LogError (seat @ arrow @ e j), Sleep]) [Suc i..<Suc i + n])
            @ [LogError (seat @ arrow @ lit ''failed after retries'')])"
    by (rule Suc.IH)
  have "[i..<i + Suc n] = i # [Suc i..<Suc i + n]"
    by (simp add: upt_conv_Cons)
  with here rest show ?case by simp
qed

lemma fetch_one_all_fail:
  assumes "\<forall>i<retries. attempt seat (site seat i) = Inl (e i)"
  shows "fetch_one retries site seat =
     (None, concat (map (\<lambda>i. [LogError (seat @ arrow @ e i), Sleep]) [0..<retries])
            @ [LogError (seat @ arrow @ lit ''failed after retries'')])"
  using attempts_all_fail [of retries seat "site seat" 0 e] assms
  by (simp add: fetch_one_def)

text \<open>The attempt that ends the loop with a result, after \<open>i\<close> attempts that raised.\<close>

lemma attempts_result:
  "\<forall>j<i. attempt seat (resp (k + j)) = Inl (e (k + j)) \<Longrightarrow>
   attempt seat (resp (k + i)) = Inr r \<Longrightarrow> i < n \<Longrightarrow>
   attempts resp seat k n =
     (r, concat (map (\<lambda>j. [LogError (seat @ arrow @ e j), Sleep]) [k..<k + i]))"
proof (induction i arbitrary: k n)
  case 0
  then obtain m where "n = Suc m" by (cases n) auto
  with "0.prems" show ?case by simp
next
  case (Suc i)
  from Suc.prems(3) obtain m where m: "n = Suc m" "i < m" by (cases n) auto
  from Suc.prems(1) have here: "attempt seat (resp k) = Inl (e k)"
    by (metis add.right_neutral zero_less_Suc)
  have a: "\<forall>j<i. attempt seat (resp (Suc k + j)) = Inl (e (Suc k + j))"
  proof (intro allI impI)
    fix j assume "j < i"
    then have "Suc j < Suc i" by simp
    with Suc.prems(1) have "attempt seat (resp (k + Suc j)) = Inl (e (k + Suc j))" by blast
    then show "attempt seat (resp (Suc k + j)) = Inl (e (Suc k + j))" by simp
  qed
  from Suc.prems(2) have b: "attempt seat (resp (Suc k + i)) = Inr r" by simp
  have rest: "attempts resp seat (Suc k) m =
     (r, concat (map (\<lambda>j. [LogError (seat @ arrow @ e j), Sleep]) [Suc k..<Suc k + i]))"
    using a b m(2) by (rule Suc.IH)
  have "[k..<k + Suc i] = k # [Suc k..<Suc k + i]"
    by (simp add: upt_conv_Cons)
  with here rest m(1) show ?case by simp
qed

lemma fetch_one_result:
  assumes "\<forall>j<i. attempt seat (site seat j) = Inl (e j)"
    and "attempt seat (site seat i) = Inr r" and "i < retries"
  shows "fetch_one retries site seat =
     (r, concat (map (\<lambda>j. [LogError (seat @ arrow @ e j), Sleep]) [0..<i]))"
  using attempts_result [of i seat "site seat" 0 e r retries] assms
  by (simp add: fetch_one_def)



lemma run_tasks_records:
  "fst (run_tasks retries site order)
     = concat (map (\<lambda>seat. fst (collect (fst (fetch_one retries site seat)))) order)"
  by (simp add: run_tasks_def Let_def comp_def)

lemma run_tasks_trace:
  "snd (run_tasks retries site order)
     = map (\<lambda>seat. snd (fetch_one retries site seat)
                     @ snd (collect (fst (fetch_one retries site seat)))) order"
  by (simp add: run_tasks_def Let_def comp_def)

lemma run_tasks_without:
  assumes "fst (fetch_one retries site seat) = None"
  shows "fst (run_tasks retries site order)
       = fst (run_tasks retries site (filter (\<lambda>s. s \<noteq> seat) order))"
  unfolding run_tasks_records using assms
  by (induction order) (simp_all add: collect_def)

lemma run_tasks_logs:
  assumes "seat \<in> set order" and "ev \<in> set (snd (fetch_one retries site seat))"
  shows "ev \<in> set (concat (snd (run_tasks retries site order)))"
  unfolding run_tasks_trace using assms by auto

text \<open>
  Claim C4. When every one of the \<open>retries\<close> attempts for a seat ends in an exception
  (of the transport, or of the parsing inside the \<open>try\<close>), the worker makes exactly
  \<open>retries\<close> attempts, logs each error as \<open>seat, arrow, message\<close> and waits after it,
  logs \<open>seat, arrow, failed after retries\<close> last, and returns \<open>None\<close>. The run goes on:
  its records are those of the run without that seat, which therefore contributes no
  record to the final dataset, and the error log holds the seat's final entry.
\<close>

theorem C4_exhausted_retries:
  assumes "\<forall>i<retries. attempt seat_str (site seat_str i) = Inl (e i)"
  shows "fetch_one retries site seat_str =
           (None, concat (map (\<lambda>i. [LogError (seat_str @ arrow @ e i), Sleep]) [0..<retries])
                  @ [LogError (seat_str @ arrow @ lit ''failed after retries'')])
       \<and> fst (run_tasks retries site order)
           = fst (run_tasks retries site (filter (\<lambda>s. s \<noteq> seat_str) order))
       \<and> (seat_str \<in> set order \<longrightarrow>
            LogError (seat_str @ arrow @ lit ''failed after retries'')
              \<in> set (concat (snd (run_tasks retries site order))))"
proof -
  note f = fetch_one_all_fail [of retries seat_str site e, OF assms]
  have "fst (fetch_one retries site seat_str) = None"
    by (simp add: f)
  then have w: "fst (run_tasks retries site order)
           = fst (run_tasks retries site (filter (\<lambda>s. s \<noteq> seat_str) order))"
    by (rule run_tasks_without)
  have "LogError (seat_str @ arrow @ lit ''failed after retries'')
          \<in> set (snd (fetch_one retries site seat_str))"
    by (simp add: f)
  then have "seat_str \<in> set order \<longrightarrow>
            LogError (seat_str @ arrow @ lit ''failed after retries'')
              \<in> set (concat (snd (run_tasks retries site order)))"
    using run_tasks_logs by blast
  with f w show ?thesis by blast
qed

text \<open>Seat \<open>000042\<close> times out on every attempt, between two seats without a result.\<close>

theorem C4_exhausted_retries_witness:
  "fetch_one RETRIES
     (\<lambda>seat i. if seat = lit ''000042'' then Raises (lit ''timeout'') else Page None)
     (lit ''000042'')
     = (None, [LogError (lit ''000042'' @ arrow @ lit ''timeout''), Sleep,
               LogError (lit ''000042'' @ arrow @ lit ''timeout''), Sleep,
               LogError (lit ''000042'' @ arrow @ lit ''failed after retries'')])
   \<and> fst (run_tasks RETRIES
            (\<lambda>seat i. if seat = lit ''000042'' then Raises (lit ''timeout'') else Page None)
            [lit ''000041'', lit ''000042'', lit ''000043'']) = []
   \<and> LogError (lit ''000042'' @ arrow @ lit ''failed after retries'')
       \<in> set (concat (snd (run_tasks RETRIES
            (\<lambda>seat i. if seat = lit ''000042'' then Raises (lit ''timeout'') else Page None)
            [lit ''000041'', lit ''000042'', lit ''000043''])))"
proof -
  let ?site = "\<lambda>seat i. if seat = lit ''000042'' then Raises (lit ''timeout'') else Page None"
  have h: "\<forall>i<RETRIES. attempt (lit ''000042'') (?site (lit ''000042'') i)
      = Inl ((\<lambda>i. lit ''timeout'') i)"
    by (simp add: attempt_def)
  have u: "[0..<RETRIES] = [0, 1]"
    by (simp add: RETRIES_def upt_conv_Cons)
  have n: "filter (\<lambda>s. s \<noteq> lit ''000042'') [lit ''000041'', lit ''000042'', lit ''000043'']
      = [lit ''000041'', lit ''000043'']"
    by code_simp
  have r: "fst (run_tasks RETRIES ?site [lit ''000041'', lit ''000043'']) = []"
    by code_simp
  have m: "lit ''000042'' \<in> set [lit ''000041'', lit ''000042'', lit ''000043'']"
    by simp
  show ?thesis
    using
      C4_exhausted_retries [of RETRIES "lit ''000042''" ?site "\<lambda>i. lit ''timeout''"
        "[lit ''000041'', lit ''000042'', lit ''000043'']", OF h] u n r m
    by simp
qed

lemma parse_page_no_section: "parse_page seat None = Inr None"
  by (simp add: parse_page_def)

lemma parse_page_no_table:
  "py_int_str seat = Some requested \<Longrightarrow> sec_table sec = None
     \<Longrightarrow> parse_page seat (Some sec) = Inr None"
  by (simp add: parse_page_def)

text \<open>
  Claim C9. An attempt that meets a page without the result section returns \<open>None\<close> at
  once: no later attempt is made and nothing is logged, whatever the later attempts
  would have met. The same holds for a page whose result section has no table, for every
  seat string the range produces (for these, \<open>int(seat_str)\<close> cannot fail before the
  table is looked for). An attempt that raises always leaves a trace, so the two outcomes
  differ.
\<close>

theorem C9_no_result_is_final:
  "(resp i = Page None \<longrightarrow> attempts resp seat_str i (Suc n) = (None, []))
   \<and> (resp i = Page (Some sec) \<and> sec_table sec = None
        \<longrightarrow> attempts resp (zfill 6 (str_int k)) i (Suc n) = (None, []))
   \<and> (site seat_str 0 = Page None \<longrightarrow> fetch_one (Suc n) site seat_str = (None, []))
   \<and> (site (zfill 6 (str_int k)) 0 = Page (Some sec) \<and> sec_table sec = None
        \<longrightarrow> fetch_one (Suc n) site (zfill 6 (str_int k)) = (None, []))
   \<and> (resp i = Raises e
        \<longrightarrow> snd (attempts resp seat_str i (Suc n)) \<noteq> [])"
  by (simp add: fetch_one_def attempt_def parse_page_no_section Let_def
        parse_page_no_table [OF py_int_str_seat])

text \<open>
  A first attempt without the section followed by failing ones, a section without a
  table, and an attempt that raises.
\<close>

theorem C9_no_result_is_final_witness:
  "fetch_one RETRIES (\<lambda>seat i. if i = 0 then Page None else Raises (lit ''late''))
     (lit ''000007'')
     = (None, [])
   \<and> fetch_one RETRIES
        (\<lambda>seat i. Page (Some \<lparr>sec_h2 = Some (lit ''Ann''), sec_spans = [], sec_table = None\<rparr>))
        (zfill 6 (str_int 7))
     = (None, [])
   \<and> snd (fetch_one RETRIES (\<lambda>seat i. Raises (lit ''late'')) (lit ''000007'')) \<noteq> []"
proof -
  have r: "RETRIES = Suc 1" by (simp add: RETRIES_def)
  have e: "snd (fetch_one RETRIES (\<lambda>seat i. Raises (lit ''late'')) (lit ''000007'')) \<noteq> []"
    by code_simp
  show ?thesis
    using
      C9_no_result_is_final [of "\<lambda>i. Page None" 0 "lit ''000007''" 1
        "\<lparr>sec_h2 = Some (lit ''Ann''), sec_spans = [], sec_table = None\<rparr>" 7
        "\<lambda>seat i. if i = 0 then Page None else Raises (lit ''late'')" "lit ''late''"]
      C9_no_result_is_final [of "\<lambda>i. Page None" 0 "lit ''000007''" 1
        "\<lparr>sec_h2 = Some (lit ''Ann''), sec_spans = [], sec_table = None\<rparr>" 7
        "\<lambda>seat i. Page (Some \<lparr>sec_h2 = Some (lit ''Ann''), sec_spans = [],
                                sec_table = None\<rparr>)"
        "lit ''late''"]
      e r
    by simp
qed

section \<open>The record of a page\<close>

lemma map_of_row_update:
  "map_of (row_update cols d) k =
     (if length cols = 2 \<and> subject (cols ! 0) = k then Some (PStr (cols ! 1)) else map_of d k)"
  by (simp add: row_update_def update_conv')

lemma map_of_fold_row_update_miss:
  "\<forall>cols\<in>set rows. length cols = 2 \<longrightarrow> subject (cols ! 0) \<noteq> k
     \<Longrightarrow> map_of (fold row_update rows d) k = map_of d k"
  by (induction rows arbitrary: d) (auto simp: map_of_row_update)

lemma map_of_fold_row_update_hit:
  assumes "\<forall>cols\<in>set post. length cols = 2 \<longrightarrow> subject (cols ! 0) \<noteq> subject c0"
  shows "map_of (fold row_update (pre @ [c0, c1] # post) d) (subject c0) = Some (PStr c1)"
  using assms by (simp add: map_of_fold_row_update_miss map_of_row_update)

lemma parse_page_record:
  assumes "py_int_str seat = Some requested" and "sec_table sec = Some rows"
  shows "parse_page seat (Some sec) =
     Inr (Some (fold row_update rows
        [(lit ''name'', PStr (case sec_h2 sec of Some t \<Rightarrow> t | None \<Rightarrow> [])),
         (lit ''code'', PInt (parse_code requested (sec_spans sec)))]))"
  using assms by (simp add: parse_page_def)


text \<open>
  Claim C10. The table rows are stored after the defaults \<open>name\<close> and \<open>code\<close>, under
  whatever key they carry. Take the attempt that returns the record, the first one or a
  later one after attempts that raised. When the last two-cell row of its table whose
  key (the stripped text before the first slash of its first cell) is \<open>name\<close> or
  \<open>code\<close> has the second cell \<open>c1\<close>, the record returned holds the string \<open>c1\<close> under
  that key, in place of the display name or of the resolved code. Nothing is logged for
  it: the trace holds the entries of the attempts that raised and no other.
\<close>

theorem C10_defaults_overwritten:
  assumes "i < retries"
    and "\<forall>j<i. attempt seat_str (site seat_str j) = Inl (e j)"
    and "site seat_str i = Page (Some sec)"
    and "py_int_str seat_str = Some requested"
    and "sec_table sec = Some (pre @ [c0, c1] # post)"
    and "subject c0 = lit ''name'' \<or> subject c0 = lit ''code''"
    and "\<forall>cols\<in>set post. length cols = 2 \<longrightarrow> subject (cols ! 0) \<noteq> subject c0"
  shows "\<exists>d. fetch_one retries site seat_str
               = (Some d, concat (map (\<lambda>j. [LogError (seat_str @ arrow @ e j), Sleep]) [0..<i]))
           \<and> map_of d (subject c0) = Some (PStr c1)"
proof -
  let ?d = "fold row_update (pre @ [c0, c1] # post)
        [(lit ''name'', PStr (case sec_h2 sec of Some t \<Rightarrow> t | None \<Rightarrow> [])),
         (lit ''code'', PInt (parse_code requested (sec_spans sec)))]"
  have "parse_page seat_str (Some sec) = Inr (Some ?d)"
    using assms(4,5) by (rule parse_page_record)
  with assms(3) have "attempt seat_str (site seat_str i) = Inr (Some ?d)"
    by (simp add: attempt_def)
  with assms(2) have "fetch_one retries site seat_str
      = (Some ?d, concat (map (\<lambda>j. [LogError (seat_str @ arrow @ e j), Sleep]) [0..<i]))"
    using assms(1) by (rule fetch_one_result)
  moreover have "map_of ?d (subject c0) = Some (PStr c1)"
    using assms(7) by (rule map_of_fold_row_update_hit)
  ultimately show ?thesis by blast
qed

text \<open>
  A page met on the second attempt, with two rows keyed \<open>code\<close>, the second with a
  no-break space before the slash: the record's code is the grade \<open>C\<close> of the second,
  neither the requested 5 nor the 7 the page asserts. A row keyed \<open>Code\<close> is an
  ordinary subject.
\<close>

theorem C10_defaults_overwritten_witness:
  "subject (lit '' code'' @ [160] @ lit ''/ x'') = lit ''code''
   \<and> fetch_one RETRIES
     (\<lambda>seat i. if i = 0 then Raises (lit ''timeout'')
        else Page (Some \<lparr>sec_h2 = Some (lit ''Ann''),
          sec_spans = [(Some (lit ''Code: 7''), lit ''Code: 7'')],
          sec_table = Some [[lit ''code'', lit ''B+''],
                            [lit '' code'' @ [160] @ lit ''/ x'', lit ''C''], [lit ''total'']]\<rparr>))
     (lit ''000005'')
   = (Some [(lit ''name'', PStr (lit ''Ann'')), (lit ''code'', PStr (lit ''C''))],
      [LogError (lit ''000005'' @ arrow @ lit ''timeout''), Sleep])
   \<and> fetch_one RETRIES
     (\<lambda>seat i. Page (Some \<lparr>sec_h2 = Some (lit ''Ann''),
          sec_spans = [(Some (lit ''Code: 7''), lit ''Code: 7'')],
          sec_table = Some [[lit ''Math'', lit ''90''], [lit ''Code / x'', lit ''B+'']]\<rparr>))
     (lit ''000005'')
   = (Some [(lit ''name'', PStr (lit ''Ann'')), (lit ''code'', PInt 7),
            (lit ''Math'', PStr (lit ''90'')), (lit ''Code'', PStr (lit ''B+''))], [])"
proof -
  let ?sec = "\<lparr>sec_h2 = Some (lit ''Ann''),
          sec_spans = [(Some (lit ''Code: 7''), lit ''Code: 7'')],
          sec_table = Some [[lit ''code'', lit ''B+''],
                            [lit '' code'' @ [160] @ lit ''/ x'', lit ''C''], [lit ''total'']]\<rparr>"
  let ?site = "\<lambda>seat i. if i = 0 then Raises (lit ''timeout'') else Page (Some ?sec)"
  have s: "subject (lit '' code'' @ [160] @ lit ''/ x'') = lit ''code''"
    by code_simp
  have i: "(1::nat) < RETRIES" by (simp add: RETRIES_def)
  have a: "\<forall>j<(1::nat). attempt (lit ''000005'') (?site (lit ''000005'') j)
      = Inl ((\<lambda>j. lit ''timeout'') j)"
    by (auto simp: attempt_def)
  have p: "?site (lit ''000005'') (1::nat) = Page (Some ?sec)" by simp
  have q: "py_int_str (lit ''000005'') = Some 5" by code_simp
  have b: "sec_table ?sec = Some ([[lit ''code'', lit ''B+'']]
      @ [lit '' code'' @ [160] @ lit ''/ x'', lit ''C''] # [[lit ''total'']])"
    by simp
  have c: "subject (lit '' code'' @ [160] @ lit ''/ x'') = lit ''name''
      \<or> subject (lit '' code'' @ [160] @ lit ''/ x'') = lit ''code''"
    using s by simp
  have d: "\<forall>cols\<in>set [[lit ''total'']]. length cols = 2
      \<longrightarrow> subject (cols ! 0) \<noteq> subject (lit '' code'' @ [160] @ lit ''/ x'')"
    by simp
  have u: "[0..<1] = [0::nat]" by simp
  have e2: "fetch_one RETRIES
     (\<lambda>seat i. Page (Some \<lparr>sec_h2 = Some (lit ''Ann''),
          sec_spans = [(Some (lit ''Code: 7''), lit ''Code: 7'')],
          sec_table = Some [[lit ''Math'', lit ''90''], [lit ''Code / x'', lit ''B+'']]\<rparr>))
     (lit ''000005'')
   = (Some [(lit ''name'', PStr (lit ''Ann'')), (lit ''code'', PInt 7),
            (lit ''Math'', PStr (lit ''90'')), (lit ''Code'', PStr (lit ''B+''))], [])"
    by code_simp
  have e1: "fetch_one RETRIES ?site (lit ''000005'')
   = (Some [(lit ''name'', PStr (lit ''Ann'')), (lit ''code'', PStr (lit ''C''))],
      [LogError (lit ''000005'' @ arrow @ lit ''timeout''), Sleep])"
    by code_simp
  show ?thesis
    using C10_defaults_overwritten [of 1 RETRIES "lit ''000005''" ?site "\<lambda>j. lit ''timeout''"
        ?sec 5 "[[lit ''code'', lit ''B+'']]" "lit '' code'' @ [160] @ lit ''/ x''" "lit ''C''"
        "[[lit ''total'']]", OF i a p q b c d]
      s e1 e2
    by simp
qed

section \<open>The writer\<close>

lemma headers_Cons:
  "headers recs = lit ''name'' # lit ''code'' #
     sort (remdups (filter (\<lambda>h. h \<notin> set [lit ''name'', lit ''code''])
                     (concat (map (map fst) recs))))"
  by (simp add: headers_def)



lemma length_headers: "2 \<le> length (headers recs)"
  by (simp add: headers_Cons)









section \<open>The code field in the final dataset\<close>














section \<open>Running twice\<close>

text \<open>
  Claim C2. Seat \<open>000005\<close> is the whole range and its page asserts the code 7. The first
  run, with no output file, fetches one record and writes it with 7 in the code column.
  The loader then reads the sheet with these cells, finds the seen code \<open>000007\<close> and
  announces that it skips the seats it loaded. Seat \<open>000005\<close> is not among them: the second
  run schedules it again, fetches the same record again, and the sheet it writes, from
  the record loaded (its keys are the three header strings) and the record fetched, holds
  the row twice.
\<close>

theorem C2_reasserted_code_fetched_again:
  "fst (run 5 5 RETRIES
     (\<lambda>seat i. Page (Some \<lparr>sec_h2 = Some (lit ''Ann''),
        sec_spans = [(Some (lit ''Code: 7''), lit ''Code: 7'')],
        sec_table = Some [[lit ''Math'', lit ''90'']]\<rparr>))
     (\<lambda>xs. xs) {})
   = [[(lit ''name'', PStr (lit ''Ann'')), (lit ''code'', PInt 7),
       (lit ''Math'', PStr (lit ''90''))]]
   \<and> fst (combine_and_write None []
       [[(lit ''name'', PStr (lit ''Ann'')), (lit ''code'', PInt 7),
         (lit ''Math'', PStr (lit ''90''))]])
     = Some ([lit ''name'', lit ''code'', lit ''Math''],
             [[PStr (lit ''Ann''), PInt 7, PStr (lit ''90'')]])
   \<and> load_existing (Some [[PStr (lit ''name''), PStr (lit ''code''), PStr (lit ''Math'')],
                           [PStr (lit ''Ann''), PInt 7, PStr (lit ''90'')]])
     = Inr ({lit ''000007''},
            [[(PStr (lit ''name''), PStr (lit ''Ann'')), (PStr (lit ''code''), PInt 7),
              (PStr (lit ''Math''), PStr (lit ''90''))]],
            [Print (lit ''Loaded 1 existing records, skipping those seats.'')])
   \<and> seats 5 5 {lit ''000007''} = [lit ''000005'']
   \<and> fst (run 5 5 RETRIES
     (\<lambda>seat i. Page (Some \<lparr>sec_h2 = Some (lit ''Ann''),
        sec_spans = [(Some (lit ''Code: 7''), lit ''Code: 7'')],
        sec_table = Some [[lit ''Math'', lit ''90'']]\<rparr>))
     (\<lambda>xs. xs) {lit ''000007''})
   = [[(lit ''name'', PStr (lit ''Ann'')), (lit ''code'', PInt 7),
       (lit ''Math'', PStr (lit ''90''))]]
   \<and> fst (combine_and_write
       (Some ([lit ''name'', lit ''code'', lit ''Math''],
              [[PStr (lit ''Ann''), PInt 7, PStr (lit ''90'')]]))
       [[(lit ''name'', PStr (lit ''Ann'')), (lit ''code'', PInt 7),
         (lit ''Math'', PStr (lit ''90''))]]
       [[(lit ''name'', PStr (lit ''Ann'')), (lit ''code'', PInt 7),
         (lit ''Math'', PStr (lit ''90''))]])
     = Some ([lit ''name'', lit ''code'', lit ''Math''],
             [[PStr (lit ''Ann''), PInt 7, PStr (lit ''90'')],
              [PStr (lit ''Ann''), PInt 7, PStr (lit ''90'')]])"
  by code_simp

end
